theory Spec2Isabelle
  imports Complex_Main "HOL-Library.AList"
begin

section \<open>The Bedrock adapter of \<^verbatim>\<open>core/llm/llms/Bedrock.ts\<close>\<close>

text \<open>
  The class \<^verbatim>\<open>Bedrock\<close> reads the AWS credentials file, picks a profile, translates the
  chat messages into the provider's schema, builds the request body and decodes the
  response stream. Each private method is embedded as a HOL function of the same name
  (without the leading underscore, which Isabelle does not allow in a name).

  A JavaScript string is modelled as a \<^typ>\<open>string\<close> whose characters are the code units
  \<^verbatim>\<open>U+0000\<close> to \<^verbatim>\<open>U+00FF\<close>. A value that may be \<^verbatim>\<open>undefined\<close> is an \<^typ>\<open>'a option\<close>, and
  \<^term>\<open>None\<close> is \<^verbatim>\<open>undefined\<close>. A thrown exception is the left summand of a sum type.
\<close>

subsection \<open>String built-ins\<close>

text \<open>
  \<^verbatim>\<open>String.prototype.trim\<close> removes white space and line terminators at both ends. Of
  the code units below \<^verbatim>\<open>U+0100\<close> these are TAB, LF, VT, FF, CR, SPACE and NBSP.
\<close>

definition is_ws :: "char \<Rightarrow> bool" where
  "is_ws c = (of_char c \<in> {9, 10, 11, 12, 13, 32, 160 :: nat})"

definition trim :: "string \<Rightarrow> string" where
  "trim s = rev (dropWhile is_ws (rev (dropWhile is_ws s)))"

text \<open>
  \<^verbatim>\<open>s.split(sep)\<close> for a separator of one character: every occurrence of the separator
  ends a piece, so the result is never empty and has one piece more than the string has
  separators.
\<close>

fun split_on :: "char \<Rightarrow> string \<Rightarrow> string list" where
  "split_on c [] = [[]]"
| "split_on c (x # xs) =
     (if x = c then [] # split_on c xs
      else (case split_on c xs of
              [] \<Rightarrow> [[x]]
            | w # ws \<Rightarrow> (x # w) # ws))"

text \<open>\<^verbatim>\<open>arr[i]\<close> on an array: \<^verbatim>\<open>undefined\<close> out of range.\<close>

fun nth_opt :: "'a list \<Rightarrow> nat \<Rightarrow> 'a option" where
  "nth_opt [] n = None"
| "nth_opt (x # xs) 0 = Some x"
| "nth_opt (x # xs) (Suc n) = nth_opt xs n"

text \<open>\<^verbatim>\<open>s.startsWith(c)\<close> and \<^verbatim>\<open>s.endsWith(c)\<close> for a pattern of one character.\<close>

fun startsWith :: "char \<Rightarrow> string \<Rightarrow> bool" where
  "startsWith c [] = False"
| "startsWith c (x # xs) = (x = c)"

definition endsWith :: "char \<Rightarrow> string \<Rightarrow> bool" where
  "endsWith c s = startsWith c (rev s)"

text \<open>\<^verbatim>\<open>s.slice(1, -1)\<close>: the string without its first and its last character.\<close>

definition slice_1_m1 :: "string \<Rightarrow> string" where
  "slice_1_m1 s = butlast (drop 1 s)"

subsection \<open>Errors\<close>

text \<open>
  \<^term>\<open>TypeError\<close> is what JavaScript throws on a property access on \<^verbatim>\<open>undefined\<close> or
  \<^verbatim>\<open>null\<close>, \<^term>\<open>SyntaxError\<close> what \<^verbatim>\<open>JSON.parse\<close> throws. The third constructor is the
  error kind that the specification names for a missing profile; no statement of the
  source constructs it.
\<close>

datatype error = TypeError | SyntaxError | MissingCredentials

subsection \<open>The credential store\<close>

text \<open>
  A profile is the object \<^verbatim>\<open>{}\<close> created at a section header; the three assignments of
  the parser are the only properties it ever gets.
\<close>

record profile =
  accessKeyId :: "string option"
  secretAccessKey :: "string option"
  sessionToken :: "string option"

definition emptyProfile :: profile where
  "emptyProfile = \<lparr>accessKeyId = None, secretAccessKey = None, sessionToken = None\<rparr>"

text \<open>
  \<^verbatim>\<open>profiles\<close> is an ordinary object made by the literal \<^verbatim>\<open>{}\<close>, so its prototype is
  \<^verbatim>\<open>Object.prototype\<close>. Its own properties are kept in creation order in \<open>props\<close>. The
  name \<^verbatim>\<open>__proto__\<close> is an accessor inherited from \<^verbatim>\<open>Object.prototype\<close>: assigning an
  object to it creates no own property and replaces the prototype, which \<open>proto\<close>
  records (\<^term>\<open>None\<close> while the prototype is still \<^verbatim>\<open>Object.prototype\<close>).
\<close>

record profiles =
  props :: "(string \<times> profile) list"
  proto :: "profile option"

definition emptyProfiles :: profiles where
  "emptyProfiles = \<lparr>props = [], proto = None\<rparr>"

text \<open>
  \<^verbatim>\<open>profiles[name] = p\<close>. An existing own property keeps its place, a new one is added
  last.
\<close>

definition assignProfile :: "string \<Rightarrow> profile \<Rightarrow> profiles \<Rightarrow> profiles" where
  "assignProfile name p ps =
     (if name = ''__proto__'' then ps\<lparr>proto := Some p\<rparr>
      else ps\<lparr>props := AList.update name p (props ps)\<rparr>)"

text \<open>
  \<^verbatim>\<open>profiles[name]\<close> as the parser reads it, always after an assignment to the same
  name. The properties that \<^verbatim>\<open>Object.prototype\<close> itself would supply are left out,
  so the model reports \<^verbatim>\<open>undefined\<close> wherever no assignment came first.
\<close>

definition readProfile :: "string \<Rightarrow> profiles \<Rightarrow> profile option" where
  "readProfile name ps =
     (if name = ''__proto__'' then proto ps else map_of (props ps) name)"

text \<open>
  \<^verbatim>\<open>profiles[name].field = v\<close>: a \<^verbatim>\<open>TypeError\<close> when \<^verbatim>\<open>profiles[name]\<close> is
  \<^verbatim>\<open>undefined\<close>, otherwise the object found there is updated in place.
\<close>

definition assignField ::
  "string \<Rightarrow> (profile \<Rightarrow> profile) \<Rightarrow> profiles \<Rightarrow> error + profiles" where
  "assignField name upd ps =
     (case readProfile name ps of
        None \<Rightarrow> Inl TypeError
      | Some p \<Rightarrow> Inr (assignProfile name (upd p) ps))"

text \<open>
  The order in which the keys of an ordinary object are enumerated: the keys that are
  array indices (canonical decimal numerals up to \<open>2^32 - 2\<close>) come first, in ascending
  numeric order, then the other keys in creation order.
\<close>

definition isDigit :: "char \<Rightarrow> bool" where
  "isDigit c = (48 \<le> (of_char c :: int) \<and> (of_char c :: int) \<le> 57)"

definition indexValue :: "string \<Rightarrow> int" where
  "indexValue s = fold (\<lambda>c n. 10 * n + (of_char c - 48)) s 0"

definition isArrayIndex :: "string \<Rightarrow> bool" where
  "isArrayIndex s =
     (s \<noteq> [] \<and> list_all isDigit s \<and> (s = ''0'' \<or> \<not> startsWith CHR ''0'' s)
      \<and> indexValue s \<le> 4294967294)"

definition jsKeyOrder :: "string list \<Rightarrow> string list" where
  "jsKeyOrder ks =
     sort_key indexValue (filter isArrayIndex ks) @ filter (\<lambda>k. \<not> isArrayIndex k) ks"

definition ownKeys :: "profiles \<Rightarrow> string list" where
  "ownKeys ps = jsKeyOrder (map fst (props ps))"

subsection \<open>\<^verbatim>\<open>_parseCredentialsFile\<close>\<close>

text \<open>
  The state of the loop is the object \<^verbatim>\<open>profiles\<close> and the variable
  \<^verbatim>\<open>currentProfile\<close> (\<^term>\<open>None\<close> for \<^verbatim>\<open>null\<close>).
\<close>

type_synonym parseState = "profiles \<times> string option"

definition isHeader :: "string \<Rightarrow> bool" where
  "isHeader trimmedLine = (startsWith CHR ''['' trimmedLine \<and> endsWith CHR '']'' trimmedLine)"

text \<open>
  The destructuring \<^verbatim>\<open>const [key, value] = trimmedLine.split("=")\<close> takes the first two
  pieces; a missing piece is \<^verbatim>\<open>undefined\<close>, and \<^verbatim>\<open>.trim()\<close> on it throws.
\<close>

definition parseAssignment :: "string \<Rightarrow> string \<Rightarrow> profiles \<Rightarrow> error + profiles" where
  "parseAssignment currentProfile trimmedLine ps =
     (let parts = split_on CHR ''='' trimmedLine in
      case nth_opt parts 0 of
        None \<Rightarrow> Inl TypeError
      | Some key \<Rightarrow>
          (case nth_opt parts 1 of
             None \<Rightarrow> Inl TypeError
           | Some val \<Rightarrow>
               (let trimmedKey = trim key; trimmedValue = trim val in
                if trimmedKey = ''aws_access_key_id'' then
                  assignField currentProfile (\<lambda>p. p\<lparr>accessKeyId := Some trimmedValue\<rparr>) ps
                else if trimmedKey = ''aws_secret_access_key'' then
                  assignField currentProfile (\<lambda>p. p\<lparr>secretAccessKey := Some trimmedValue\<rparr>) ps
                else if trimmedKey = ''aws_session_token'' then
                  assignField currentProfile (\<lambda>p. p\<lparr>sessionToken := Some trimmedValue\<rparr>) ps
                else Inr ps)))"

text \<open>One iteration of the \<^verbatim>\<open>for\<close> loop.\<close>

definition parseLine :: "string \<Rightarrow> parseState \<Rightarrow> error + parseState" where
  "parseLine line st =
     (let trimmedLine = trim line in
      if isHeader trimmedLine then
        (let currentProfile = slice_1_m1 trimmedLine in
         Inr (assignProfile currentProfile emptyProfile (fst st), Some currentProfile))
      else
        (case snd st of
           None \<Rightarrow> Inr st
         | Some currentProfile \<Rightarrow>
             if CHR ''='' \<in> set trimmedLine then
               (case parseAssignment currentProfile trimmedLine (fst st) of
                  Inl e \<Rightarrow> Inl e
                | Inr ps \<Rightarrow> Inr (ps, Some currentProfile))
             else Inr st))"

fun parseLines :: "string list \<Rightarrow> parseState \<Rightarrow> error + parseState" where
  "parseLines [] st = Inr st"
| "parseLines (line # rest) st =
     (case parseLine line st of
        Inl e \<Rightarrow> Inl e
      | Inr st' \<Rightarrow> parseLines rest st')"

definition fileLines :: "string \<Rightarrow> string list" where
  "fileLines fileContents = split_on CHR ''\<newline>'' (trim fileContents)"

definition parseCredentialsFile :: "string \<Rightarrow> error + profiles" where
  "parseCredentialsFile fileContents =
     (case parseLines (fileLines fileContents) (emptyProfiles, None) of
        Inl e \<Rightarrow> Inl e
      | Inr st \<Rightarrow> Inr (fst st))"

subsection \<open>Credential selection in \<^verbatim>\<open>_streamChat\<close>\<close>

text \<open>
  \<^verbatim>\<open>credentialsFile.bedrock ?? credentialsFile.default\<close>. A property read also searches
  the prototype chain, but neither a replaced prototype (whose only properties are
  \<^verbatim>\<open>accessKeyId\<close>, \<^verbatim>\<open>secretAccessKey\<close> and \<^verbatim>\<open>sessionToken\<close>) nor \<^verbatim>\<open>Object.prototype\<close>
  has a property of either name, so both reads see the own properties only.
\<close>

definition selectedProfile :: "profiles \<Rightarrow> profile option" where
  "selectedProfile credentialsFile =
     (case map_of (props credentialsFile) ''bedrock'' of
        Some p \<Rightarrow> Some p
      | None \<Rightarrow> map_of (props credentialsFile) ''default'')"

text \<open>The \<^verbatim>\<open>credentials\<close> object handed to the client.\<close>

record clientCredentials =
  clientAccessKeyId :: "string option"
  clientSecretAccessKey :: "string option"
  clientSessionToken :: string

text \<open>\<^verbatim>\<open>x || ""\<close>: the empty string when \<^verbatim>\<open>x\<close> is \<^verbatim>\<open>undefined\<close> or empty.\<close>

definition orEmpty :: "string option \<Rightarrow> string" where
  "orEmpty x = (case x of None \<Rightarrow> [] | Some t \<Rightarrow> (if t = [] then [] else t))"

text \<open>
  Lines 115 to 118: reading \<^verbatim>\<open>credentials.accessKeyId\<close> throws a \<^verbatim>\<open>TypeError\<close> when
  \<^verbatim>\<open>credentials\<close> is \<^verbatim>\<open>undefined\<close>.
\<close>

definition profileCredentials :: "profile \<Rightarrow> clientCredentials" where
  "profileCredentials credentials =
     \<lparr>clientAccessKeyId = accessKeyId credentials,
      clientSecretAccessKey = secretAccessKey credentials,
      clientSessionToken = orEmpty (sessionToken credentials)\<rparr>"

definition selectCredentials :: "profiles \<Rightarrow> error + clientCredentials" where
  "selectCredentials credentialsFile =
     (case selectedProfile credentialsFile of
        None \<Rightarrow> Inl TypeError
      | Some credentials \<Rightarrow> Inr (profileCredentials credentials))"

text \<open>Lines 114 to 118 of \<^verbatim>\<open>_streamChat\<close>, from the text read from the file.\<close>

definition chatCredentials :: "string \<Rightarrow> error + clientCredentials" where
  "chatCredentials fileData =
     (case parseCredentialsFile fileData of
        Inl e \<Rightarrow> Inl e
      | Inr credentialsFile \<Rightarrow> selectCredentials credentialsFile)"

subsection \<open>Message translation\<close>

text \<open>
  Modelled from the spec: the types \<^verbatim>\<open>ChatMessage\<close> and \<^verbatim>\<open>MessageContent\<close> are
  declared in \<^verbatim>\<open>core/index\<close>, which is not among the sources. A message has one of
  three roles and a content that is a string or a sequence of parts; a part carries its
  type tag, and, as the source reads them, an optional text and an optional
  \<^verbatim>\<open>imageUrl\<close> object holding the \<^verbatim>\<open>url\<close>.
\<close>

datatype ChatMessageRole = User | Assistant | System

datatype partType = TextType | ImageUrlType

record MessagePart =
  partType :: partType
  partText :: "string option"
  partImageUrl :: "string option"

datatype MessageContent = Str string | Parts "MessagePart list"

record ChatMessage =
  role :: ChatMessageRole
  content :: MessageContent

text \<open>The objects that the translation builds.\<close>

record imageSource =
  sourceType :: string
  media_type :: string
  imageData :: "string option"

datatype wirePart = SamePart MessagePart | ImagePart string imageSource

datatype wireContent = WireStr string | WireParts "wirePart list"

record wireMessage =
  wireRole :: ChatMessageRole
  wireContent :: wireContent

text \<open>
  \<^verbatim>\<open>part.imageUrl?.url.split(",")[1]\<close>: \<^verbatim>\<open>undefined\<close> without an \<^verbatim>\<open>imageUrl\<close>, otherwise
  the second piece of the URL split at its commas.
\<close>

definition imagePayload :: "MessagePart \<Rightarrow> string option" where
  "imagePayload part =
     (case partImageUrl part of
        None \<Rightarrow> None
      | Some url \<Rightarrow> nth_opt (split_on CHR '','' url) 1)"

definition convertPart :: "MessagePart \<Rightarrow> wirePart" where
  "convertPart part =
     (if partType part = TextType then SamePart part
      else ImagePart ''image''
             \<lparr>sourceType = ''base64'', media_type = ''image/jpeg'',
              imageData = imagePayload part\<rparr>)"

fun convertMessageContent :: "MessageContent \<Rightarrow> wireContent" where
  "convertMessageContent (Str messageContent) = WireStr messageContent"
| "convertMessageContent (Parts messageContent) = WireParts (map convertPart messageContent)"

definition convertMessage :: "ChatMessage \<Rightarrow> wireMessage" where
  "convertMessage message =
     \<lparr>wireRole = role message, wireContent = convertMessageContent (content message)\<rparr>"

definition convertMessages :: "ChatMessage list \<Rightarrow> wireMessage list" where
  "convertMessages msgs = map convertMessage (filter (\<lambda>m. role m \<noteq> System) msgs)"

subsection \<open>The request body\<close>

text \<open>
  Modelled from the spec: the type \<^verbatim>\<open>CompletionOptions\<close> is declared in \<^verbatim>\<open>core/index\<close>,
  which is not among the sources; it is the bag of \<^verbatim>\<open>model\<close>, \<^verbatim>\<open>maxTokens\<close>,
  \<^verbatim>\<open>temperature\<close>, \<^verbatim>\<open>topP\<close>, \<^verbatim>\<open>topK\<close> and \<^verbatim>\<open>stop\<close>. The source reads it with plain
  property accesses, and a property that the caller left unset reads as \<^verbatim>\<open>undefined\<close>;
  so does \<^verbatim>\<open>this.systemMessage\<close>, which the base class holds. Numbers are the finite
  values.
\<close>

record CompletionOptions =
  model :: string
  maxTokens :: "rat option"
  temperature :: "rat option"
  topP :: "rat option"
  topK :: "rat option"
  stop :: "string list option"

datatype bodyValue =
  VString string | VNumber rat | VStrings "string list" | VMessages "wireMessage list"

text \<open>The object literal of lines 129 to 138, its properties in the order written.\<close>

definition requestObject ::
  "string option \<Rightarrow> ChatMessage list \<Rightarrow> CompletionOptions \<Rightarrow> (string \<times> bodyValue option) list"
where
  "requestObject systemMessage messages options =
     [(''anthropic_version'', Some (VString ''bedrock-2023-05-31'')),
      (''max_tokens'', map_option VNumber (maxTokens options)),
      (''system'', map_option VString systemMessage),
      (''messages'', Some (VMessages (convertMessages messages))),
      (''temperature'', map_option VNumber (temperature options)),
      (''top_p'', map_option VNumber (topP options)),
      (''top_k'', map_option VNumber (topK options)),
      (''stop_sequences'', map_option VStrings (stop options))]"

text \<open>
  \<^verbatim>\<open>JSON.stringify\<close> writes the properties of an object in order and leaves out every
  property whose value is \<^verbatim>\<open>undefined\<close>. The body is represented by the fields of the
  JSON object that the serialised text denotes.
\<close>

fun stringifyFields :: "(string \<times> 'v option) list \<Rightarrow> (string \<times> 'v) list" where
  "stringifyFields [] = []"
| "stringifyFields ((k, None) # kvs) = stringifyFields kvs"
| "stringifyFields ((k, Some v) # kvs) = (k, v) # stringifyFields kvs"

definition requestBody ::
  "string option \<Rightarrow> ChatMessage list \<Rightarrow> CompletionOptions \<Rightarrow> (string \<times> bodyValue) list"
where
  "requestBody systemMessage messages options =
     stringifyFields (requestObject systemMessage messages options)"

subsection \<open>Decoding the response stream\<close>

text \<open>
  The value of \<^verbatim>\<open>JSON.parse\<close>. An object is the list of its properties, each name once.
\<close>

datatype json =
  JNull | JBool bool | JNum rat | JStr string | JArr "json list" | JObj "(string \<times> json) list"

text \<open>
  \<^verbatim>\<open>v.delta?.text\<close> on a value other than \<^verbatim>\<open>null\<close>: only an object has a property
  \<^verbatim>\<open>delta\<close>, and only an object \<^verbatim>\<open>delta\<close> has a property \<^verbatim>\<open>text\<close>.
\<close>

fun property :: "string \<Rightarrow> json \<Rightarrow> json option" where
  "property name (JObj kvs) = map_of kvs name"
| "property name v = None"

definition deltaText :: "json \<Rightarrow> json option" where
  "deltaText v = (case property ''delta'' v of None \<Rightarrow> None | Some d \<Rightarrow> property ''text'' d)"

text \<open>The test \<^verbatim>\<open>if (chunk)\<close>.\<close>

fun truthy :: "json \<Rightarrow> bool" where
  "truthy JNull = False"
| "truthy (JBool b) = b"
| "truthy (JNum n) = (n \<noteq> 0)"
| "truthy (JStr s) = (s \<noteq> [])"
| "truthy (JArr vs) = True"
| "truthy (JObj kvs) = True"

text \<open>
  A frame is given by what \<^verbatim>\<open>TextDecoder\<close> and \<^verbatim>\<open>JSON.parse\<close> make of its bytes:
  \<^term>\<open>None\<close> when the text is not JSON (\<^verbatim>\<open>JSON.parse\<close> throws a \<^verbatim>\<open>SyntaxError\<close>), the
  parsed value otherwise. One iteration of the loop yields at most one message;
  reading \<^verbatim>\<open>.delta\<close> of \<^verbatim>\<open>null\<close> throws.
\<close>

record delta =
  deltaRole :: ChatMessageRole
  deltaContent :: json

definition decodeFrame :: "json option \<Rightarrow> error + delta list" where
  "decodeFrame frame =
     (case frame of
        None \<Rightarrow> Inl SyntaxError
      | Some JNull \<Rightarrow> Inl TypeError
      | Some v \<Rightarrow>
          (case deltaText v of
             None \<Rightarrow> Inr []
           | Some chunk \<Rightarrow>
               if truthy chunk then Inr [\<lparr>deltaRole = Assistant, deltaContent = chunk\<rparr>]
               else Inr []))"

text \<open>
  The whole loop: the messages yielded, and the exception that ended the generator, if
  any.
\<close>

fun decodeFrames :: "json option list \<Rightarrow> delta list \<times> error option" where
  "decodeFrames [] = ([], None)"
| "decodeFrames (frame # rest) =
     (case decodeFrame frame of
        Inl e \<Rightarrow> ([], Some e)
      | Inr ds \<Rightarrow> (ds @ fst (decodeFrames rest), snd (decodeFrames rest)))"

subsection \<open>What the specification says of the parse\<close>

text \<open>
  The definitions of this subsection follow the words of the specification; the
  theorems compare them with the parser. They speak of the lines as the loop sees
  them, each one trimmed.
\<close>

definition trimmedLines :: "string \<Rightarrow> string list" where
  "trimmedLines fileContents = map trim (fileLines fileContents)"

text \<open>The bracketed section names, in order of appearance.\<close>

definition sectionNamesOf :: "string list \<Rightarrow> string list" where
  "sectionNamesOf ls = map slice_1_m1 (filter isHeader ls)"

definition sectionNames :: "string \<Rightarrow> string list" where
  "sectionNames fileContents = sectionNamesOf (trimmedLines fileContents)"

text \<open>A list without its repetitions, in order of first appearance.\<close>

definition firstOccurrences :: "'a list \<Rightarrow> 'a list" where
  "firstOccurrences xs = rev (remdups (rev xs))"

text \<open>
  The lines of the last section of a name: those after its last header, up to the next
  header.
\<close>

definition afterLastHeader :: "string \<Rightarrow> string list \<Rightarrow> string list" where
  "afterLastHeader n ls =
     rev (takeWhile (\<lambda>l. \<not> (isHeader l \<and> slice_1_m1 l = n)) (rev ls))"

definition lastSectionBody :: "string \<Rightarrow> string list \<Rightarrow> string list" where
  "lastSectionBody n ls = takeWhile (\<lambda>l. \<not> isHeader l) (afterLastHeader n ls)"

text \<open>
  An assignment to a key is a line with an \<^verbatim>\<open>=\<close> whose text before the first \<^verbatim>\<open>=\<close> is,
  trimmed, that key. Its value by the specification is the whole remainder after the
  first \<^verbatim>\<open>=\<close>, trimmed.
\<close>

definition isAssignmentTo :: "string \<Rightarrow> string \<Rightarrow> bool" where
  "isAssignmentTo k l =
     (CHR ''='' \<in> set l \<and> trim (takeWhile (\<lambda>c. c \<noteq> CHR ''='') l) = k)"

definition lastAssignment :: "string \<Rightarrow> string list \<Rightarrow> string option" where
  "lastAssignment k body = List.find (isAssignmentTo k) (rev body)"

definition remainderValue :: "string \<Rightarrow> string" where
  "remainderValue l = trim (drop 1 (dropWhile (\<lambda>c. c \<noteq> CHR ''='') l))"

text \<open>
  The claim about repeated sections reads every section of a name as one: the lines
  tagged with the section they stand in, and the last assignment to a key among the
  lines of all the sections of one name.
\<close>

fun taggedLines :: "string option \<Rightarrow> string list \<Rightarrow> (string option \<times> string) list" where
  "taggedLines cur [] = []"
| "taggedLines cur (l # ls) =
     (if isHeader l then taggedLines (Some (slice_1_m1 l)) ls
      else (cur, l) # taggedLines cur ls)"

definition lastAssignmentAnywhere :: "string \<Rightarrow> string \<Rightarrow> string list \<Rightarrow> string option" where
  "lastAssignmentAnywhere k n ls =
     map_option snd
       (List.find (\<lambda>cl. fst cl = Some n \<and> isAssignmentTo k (snd cl)) (rev (taggedLines None ls)))"

text \<open>
  What the parser stores for an assignment: the text between the first and the second
  \<^verbatim>\<open>=\<close> of the line, trimmed.
\<close>

definition storedValue :: "string \<Rightarrow> string" where
  "storedValue l =
     trim (takeWhile (\<lambda>c. c \<noteq> CHR ''='') (drop 1 (dropWhile (\<lambda>c. c \<noteq> CHR ''='') l)))"

definition storedProfile :: "string \<Rightarrow> string list \<Rightarrow> profile" where
  "storedProfile n ls =
     \<lparr>accessKeyId =
        map_option storedValue (lastAssignment ''aws_access_key_id'' (lastSectionBody n ls)),
      secretAccessKey =
        map_option storedValue (lastAssignment ''aws_secret_access_key'' (lastSectionBody n ls)),
      sessionToken =
        map_option storedValue (lastAssignment ''aws_session_token'' (lastSectionBody n ls))\<rparr>"

text \<open>The field of a profile that a recognized key of the file is stored in.\<close>

definition recognizedKeys :: "string list" where
  "recognizedKeys = [''aws_access_key_id'', ''aws_secret_access_key'', ''aws_session_token'']"

definition fieldOf :: "string \<Rightarrow> profile \<Rightarrow> string option" where
  "fieldOf k p =
     (if k = ''aws_access_key_id'' then accessKeyId p
      else if k = ''aws_secret_access_key'' then secretAccessKey p
      else if k = ''aws_session_token'' then sessionToken p
      else None)"

subsection \<open>The field names of the wire request\<close>

definition wireFieldNames :: "string list" where
  "wireFieldNames =
     [''anthropic_version'', ''max_tokens'', ''system'', ''messages'', ''temperature'',
      ''top_p'', ''top_k'', ''stop_sequences'']"

subsection \<open>What the specification says of an image payload\<close>

text \<open>The substring of a URL after its first comma.\<close>

definition afterFirstComma :: "string \<Rightarrow> string" where
  "afterFirstComma url = drop 1 (dropWhile (\<lambda>c. c \<noteq> CHR '','') url)"

subsection \<open>The loop invariant of the parser\<close>

text \<open>
  The effect of one line that is not a header on the profile of the current section,
  and what holds of the loop state after the lines \<open>ls\<close>: the own keys are the section
  names met so far, \<^verbatim>\<open>currentProfile\<close> is the last of them, and every section holds
  what its last occurrence assigned.
\<close>

definition applyLine :: "string \<Rightarrow> profile \<Rightarrow> profile" where
  "applyLine l p =
     (if isAssignmentTo ''aws_access_key_id'' l then p\<lparr>accessKeyId := Some (storedValue l)\<rparr>
      else if isAssignmentTo ''aws_secret_access_key'' l then p\<lparr>secretAccessKey := Some (storedValue l)\<rparr>
      else if isAssignmentTo ''aws_session_token'' l then p\<lparr>sessionToken := Some (storedValue l)\<rparr>
      else p)"

definition parsedUpTo :: "string list \<Rightarrow> parseState \<Rightarrow> bool" where
  "parsedUpTo ls st =
     (map fst (props (fst st)) =
        firstOccurrences (filter (\<lambda>n. n \<noteq> ''__proto__'') (sectionNamesOf ls))
      \<and> snd st = (if sectionNamesOf ls = [] then None else Some (last (sectionNamesOf ls)))
      \<and> (\<forall>n. readProfile n (fst st) =
               (if n \<in> set (sectionNamesOf ls) then Some (storedProfile n ls) else None)))"

section \<open>Properties\<close>

subsection \<open>Splitting\<close>

lemma split_on_unfold:
  "split_on c s =
     takeWhile (\<lambda>x. x \<noteq> c) s #
       (case dropWhile (\<lambda>x. x \<noteq> c) s of [] \<Rightarrow> [] | y # r \<Rightarrow> split_on c r)"
  by (induction s) (auto split: list.splits)

lemma split_on_first: "nth_opt (split_on c s) 0 = Some (takeWhile (\<lambda>x. x \<noteq> c) s)"
  by (subst split_on_unfold) simp

lemma dropWhile_sep:
  "c \<in> set s \<Longrightarrow>
     dropWhile (\<lambda>x. x \<noteq> c) s = c # drop 1 (dropWhile (\<lambda>x. x \<noteq> c) s)"
  by (induction s) auto

lemma split_on_second:
  assumes "c \<in> set s"
  shows "nth_opt (split_on c s) 1 =
           Some (takeWhile (\<lambda>x. x \<noteq> c) (drop 1 (dropWhile (\<lambda>x. x \<noteq> c) s)))"
proof -
  obtain r where r: "dropWhile (\<lambda>x. x \<noteq> c) s = c # r"
    using dropWhile_sep [OF assms] by blast
  have "split_on c s = takeWhile (\<lambda>x. x \<noteq> c) s # split_on c r"
    by (subst split_on_unfold) (simp add: r)
  moreover have "nth_opt (split_on c r) 0 = Some (takeWhile (\<lambda>x. x \<noteq> c) r)"
    by (rule split_on_first)
  ultimately show ?thesis by (simp add: r)
qed

lemma split_on_none: "c \<notin> set s \<Longrightarrow> split_on c s = [s]"
  by (induction s) auto

subsection \<open>The specification-side functions, one line further\<close>

lemma sectionNamesOf_snoc:
  "sectionNamesOf (ls @ [l]) = sectionNamesOf ls @ (if isHeader l then [slice_1_m1 l] else [])"
  by (simp add: sectionNamesOf_def)

lemma firstOccurrences_snoc:
  "firstOccurrences (xs @ [x]) =
     (if x \<in> set xs then firstOccurrences xs else firstOccurrences xs @ [x])"
  by (simp add: firstOccurrences_def)

lemma set_firstOccurrences: "set (firstOccurrences xs) = set xs"
  by (simp add: firstOccurrences_def)

lemma afterLastHeader_snoc:
  "afterLastHeader n (ls @ [l]) =
     (if isHeader l \<and> slice_1_m1 l = n then [] else afterLastHeader n ls @ [l])"
  by (simp add: afterLastHeader_def)

lemma takeWhile_snoc_stop: "\<not> P l \<Longrightarrow> takeWhile P (xs @ [l]) = takeWhile P xs"
  by (induction xs) auto

lemma takeWhile_snoc_go:
  "P l \<Longrightarrow>
     takeWhile P (xs @ [l]) = (if \<forall>x\<in>set xs. P x then xs @ [l] else takeWhile P xs)"
  by (induction xs) auto

lemma takeWhile_all: "\<forall>x\<in>set xs. P x \<Longrightarrow> takeWhile P xs = xs"
  by (induction xs) auto

lemma lastSectionBody_header:
  "isHeader l \<Longrightarrow>
     lastSectionBody n (ls @ [l]) = (if slice_1_m1 l = n then [] else lastSectionBody n ls)"
  by (simp add: lastSectionBody_def afterLastHeader_snoc takeWhile_snoc_stop)

lemma current_section_iff:
  "n \<in> set (sectionNamesOf ls) \<Longrightarrow>
     (\<forall>x\<in>set (afterLastHeader n ls). \<not> isHeader x) = (last (sectionNamesOf ls) = n)"
proof (induction ls rule: rev_induct)
  case Nil
  then show ?case by (simp add: sectionNamesOf_def)
next
  case (snoc l ls)
  then show ?case
    by (cases "isHeader l") (auto simp: sectionNamesOf_snoc afterLastHeader_snoc)
qed

lemma lastSectionBody_line:
  assumes "\<not> isHeader l" "n \<in> set (sectionNamesOf ls)"
  shows "lastSectionBody n (ls @ [l]) =
           (if last (sectionNamesOf ls) = n then lastSectionBody n ls @ [l]
            else lastSectionBody n ls)"
proof -
  have "afterLastHeader n (ls @ [l]) = afterLastHeader n ls @ [l]"
    using assms(1) by (simp add: afterLastHeader_snoc)
  then have "lastSectionBody n (ls @ [l]) =
      (if \<forall>x\<in>set (afterLastHeader n ls). \<not> isHeader x then afterLastHeader n ls @ [l]
       else lastSectionBody n ls)"
    using assms(1) by (simp add: lastSectionBody_def takeWhile_snoc_go)
  moreover have "(\<forall>x\<in>set (afterLastHeader n ls). \<not> isHeader x) \<Longrightarrow>
      lastSectionBody n ls = afterLastHeader n ls"
    by (simp add: lastSectionBody_def takeWhile_all)
  ultimately show ?thesis
    using current_section_iff [OF assms(2)] by auto
qed

lemma lastAssignment_snoc:
  "lastAssignment k (b @ [l]) = (if isAssignmentTo k l then Some l else lastAssignment k b)"
  by (simp add: lastAssignment_def)

lemma isAssignmentTo_unique: "isAssignmentTo k l \<Longrightarrow> isAssignmentTo k' l \<Longrightarrow> k = k'"
  by (auto simp: isAssignmentTo_def)

lemma storedProfile_header:
  "isHeader l \<Longrightarrow>
     storedProfile n (ls @ [l]) =
       (if slice_1_m1 l = n then emptyProfile else storedProfile n ls)"
  by (simp add: storedProfile_def lastSectionBody_header lastAssignment_def emptyProfile_def)

lemma storedProfile_current:
  assumes "\<not> isHeader l" "n \<in> set (sectionNamesOf ls)" "last (sectionNamesOf ls) = n"
  shows "storedProfile n (ls @ [l]) = applyLine l (storedProfile n ls)"
proof -
  have body: "lastSectionBody n (ls @ [l]) = lastSectionBody n ls @ [l]"
    using assms by (simp add: lastSectionBody_line)
  have k12: "\<not> (isAssignmentTo ''aws_access_key_id'' l \<and> isAssignmentTo ''aws_secret_access_key'' l)"
    and k13: "\<not> (isAssignmentTo ''aws_access_key_id'' l \<and> isAssignmentTo ''aws_session_token'' l)"
    and k23: "\<not> (isAssignmentTo ''aws_secret_access_key'' l \<and> isAssignmentTo ''aws_session_token'' l)"
    by (simp_all add: isAssignmentTo_def)
  show ?thesis
    unfolding storedProfile_def body lastAssignment_snoc applyLine_def
    using k12 k13 k23 by auto
qed

lemma storedProfile_other:
  assumes "\<not> isHeader l" "n \<in> set (sectionNamesOf ls)" "last (sectionNamesOf ls) \<noteq> n"
  shows "storedProfile n (ls @ [l]) = storedProfile n ls"
  using assms by (simp add: storedProfile_def lastSectionBody_line)

subsection \<open>The parser keeps its invariant\<close>

lemma readProfile_assignProfile:
  "readProfile n (assignProfile c p ps) = (if n = c then Some p else readProfile n ps)"
  by (auto simp: readProfile_def assignProfile_def update_conv')

lemma keys_assignProfile:
  "map fst (props (assignProfile c p ps)) =
     (if c = ''__proto__'' \<or> c \<in> set (map fst (props ps)) then map fst (props ps)
      else map fst (props ps) @ [c])"
  by (simp add: assignProfile_def update_keys)

lemma parseAssignment_result:
  assumes eq: "CHR ''='' \<in> set l" and rd: "readProfile c ps = Some p"
  shows "\<exists>ps'. parseAssignment c l ps = Inr ps'
           \<and> map fst (props ps') =
               (if c = ''__proto__'' \<or> c \<in> set (map fst (props ps)) then map fst (props ps)
                else map fst (props ps) @ [c])
           \<and> (\<forall>n. readProfile n ps' = (if n = c then Some (applyLine l p) else readProfile n ps))"
proof -
  have mem: "c \<noteq> ''__proto__'' \<Longrightarrow> c \<in> set (map fst (props ps))"
    using rd map_of_eq_None_iff [of "props ps" c] by (auto simp: readProfile_def)
  have parts0: "nth_opt (split_on CHR ''='' l) 0 = Some (takeWhile (\<lambda>x. x \<noteq> CHR ''='') l)"
    by (rule split_on_first)
  have parts1: "nth_opt (split_on CHR ''='' l) (Suc 0) =
      Some (takeWhile (\<lambda>x. x \<noteq> CHR ''='') (drop 1 (dropWhile (\<lambda>x. x \<noteq> CHR ''='') l)))"
    using split_on_second [OF eq] by simp
  show ?thesis
    using mem rd eq
    by (auto simp: parseAssignment_def parts0 parts1 Let_def assignField_def
        readProfile_assignProfile keys_assignProfile applyLine_def isAssignmentTo_def storedValue_def)
qed


lemma parseLine_step:
  assumes inv: "parsedUpTo ls st"
  shows "\<exists>st'. parseLine raw st = Inr st' \<and> parsedUpTo (ls @ [trim raw]) st'"
proof (cases "isHeader (trim raw)")
  case True
  let ?c = "slice_1_m1 (trim raw)"
  let ?F = "filter (\<lambda>n. n \<noteq> ''__proto__'') (sectionNamesOf ls)"
  have step: "parseLine raw st = Inr (assignProfile ?c emptyProfile (fst st), Some ?c)"
    using True by (simp add: parseLine_def Let_def)
  have keys: "map fst (props (fst st)) = firstOccurrences ?F"
    using inv by (simp add: parsedUpTo_def)
  have "set (map fst (props (fst st))) = set ?F"
    by (simp only: keys set_firstOccurrences)
  then have k: "map fst (props (assignProfile ?c emptyProfile (fst st))) =
      firstOccurrences (filter (\<lambda>n. n \<noteq> ''__proto__'') (sectionNamesOf (ls @ [trim raw])))"
    using True keys
    by (auto simp: keys_assignProfile sectionNamesOf_snoc firstOccurrences_snoc)
  have r: "\<forall>n. readProfile n (assignProfile ?c emptyProfile (fst st)) =
      (if n \<in> set (sectionNamesOf (ls @ [trim raw]))
       then Some (storedProfile n (ls @ [trim raw])) else None)"
    using True inv
    by (auto simp: parsedUpTo_def readProfile_assignProfile sectionNamesOf_snoc storedProfile_header)
  show ?thesis
    using True k r by (simp add: step parsedUpTo_def sectionNamesOf_snoc)
next
  case False
  have names: "sectionNamesOf (ls @ [trim raw]) = sectionNamesOf ls"
    using False by (simp add: sectionNamesOf_snoc)
  show ?thesis
  proof (cases "snd st")
    case None
    then have "sectionNamesOf ls = []"
      using inv by (simp add: parsedUpTo_def split: if_splits)
    moreover have "parseLine raw st = Inr st"
      using False None by (simp add: parseLine_def Let_def)
    ultimately show ?thesis
      using inv by (simp add: parsedUpTo_def names)
  next
    case (Some c)
    then have ne: "sectionNamesOf ls \<noteq> []" and c: "last (sectionNamesOf ls) = c"
      using inv by (auto simp: parsedUpTo_def split: if_splits)
    then have cin: "c \<in> set (sectionNamesOf ls)"
      using last_in_set by blast
    have rd: "readProfile c (fst st) = Some (storedProfile c ls)"
      using inv cin by (simp add: parsedUpTo_def)
    have stored: "\<And>n. n \<in> set (sectionNamesOf ls) \<Longrightarrow>
        storedProfile n (ls @ [trim raw]) =
          (if n = c then applyLine (trim raw) (storedProfile c ls) else storedProfile n ls)"
      using False c storedProfile_current storedProfile_other by auto
    show ?thesis
    proof (cases "CHR ''='' \<in> set (trim raw)")
      case True
      obtain ps' where ps': "parseAssignment c (trim raw) (fst st) = Inr ps'"
        and k': "map fst (props ps') =
               (if c = ''__proto__'' \<or> c \<in> set (map fst (props (fst st)))
                then map fst (props (fst st)) else map fst (props (fst st)) @ [c])"
        and r': "\<forall>n. readProfile n ps' =
               (if n = c then Some (applyLine (trim raw) (storedProfile c ls))
                else readProfile n (fst st))"
        using parseAssignment_result [OF True rd] by blast
      have step: "parseLine raw st = Inr (ps', Some c)"
        using False Some True ps' by (simp add: parseLine_def Let_def)
      have "set (map fst (props (fst st))) =
          set (filter (\<lambda>n. n \<noteq> ''__proto__'') (sectionNamesOf ls))"
        using inv by (simp only: parsedUpTo_def set_firstOccurrences)
      then have "c = ''__proto__'' \<or> c \<in> set (map fst (props (fst st)))"
        using cin by auto
      then have k: "map fst (props ps') = map fst (props (fst st))"
        using k' by simp
      show ?thesis
        using inv k r' stored cin ne c
        by (auto simp: step parsedUpTo_def names)
    next
      case noeq: False
      have step: "parseLine raw st = Inr st"
        using False Some noeq by (simp add: parseLine_def Let_def)
      have "applyLine (trim raw) (storedProfile c ls) = storedProfile c ls"
        using noeq by (simp add: applyLine_def isAssignmentTo_def)
      then show ?thesis
        using inv stored by (auto simp: step parsedUpTo_def names)
    qed
  qed
qed

lemma parseLines_run:
  "parsedUpTo ls st \<Longrightarrow>
     \<exists>st'. parseLines raws st = Inr st' \<and> parsedUpTo (ls @ map trim raws) st'"
proof (induction raws arbitrary: ls st)
  case Nil
  then show ?case by simp
next
  case (Cons raw raws)
  obtain st1 where s1: "parseLine raw st = Inr st1" and i1: "parsedUpTo (ls @ [trim raw]) st1"
    using parseLine_step [OF Cons.prems] by blast
  obtain st' where "parseLines raws st1 = Inr st'"
    and "parsedUpTo ((ls @ [trim raw]) @ map trim raws) st'"
    using Cons.IH [OF i1] by blast
  then show ?case by (simp add: s1)
qed

lemma parsedUpTo_initial: "parsedUpTo [] (emptyProfiles, None)"
  by (simp add: parsedUpTo_def emptyProfiles_def sectionNamesOf_def firstOccurrences_def
      readProfile_def)

lemma parse_characterised:
  "\<exists>ps. parseCredentialsFile s = Inr ps
     \<and> map fst (props ps) =
         firstOccurrences (filter (\<lambda>n. n \<noteq> ''__proto__'') (sectionNames s))
     \<and> (\<forall>n. readProfile n ps =
            (if n \<in> set (sectionNames s) then Some (storedProfile n (trimmedLines s))
             else None))"
proof -
  obtain st' where run: "parseLines (fileLines s) (emptyProfiles, None) = Inr st'"
    and inv: "parsedUpTo ([] @ map trim (fileLines s)) st'"
    using parseLines_run [OF parsedUpTo_initial] by blast
  have "parseCredentialsFile s = Inr (fst st')"
    by (simp add: parseCredentialsFile_def run)
  then show ?thesis
    using inv by (simp add: parsedUpTo_def sectionNames_def trimmedLines_def)
qed


subsection \<open>Consequences of the invariant\<close>

lemma chatCredentials_eq:
  "chatCredentials s =
     (if ''bedrock'' \<in> set (sectionNames s)
      then Inr (profileCredentials (storedProfile ''bedrock'' (trimmedLines s)))
      else if ''default'' \<in> set (sectionNames s)
      then Inr (profileCredentials (storedProfile ''default'' (trimmedLines s)))
      else Inl TypeError)"
proof -
  obtain ps where ps: "parseCredentialsFile s = Inr ps"
    and rd: "\<forall>n. readProfile n ps =
            (if n \<in> set (sectionNames s) then Some (storedProfile n (trimmedLines s))
             else None)"
    using parse_characterised [of s] by blast
  have b: "map_of (props ps) ''bedrock'' = readProfile ''bedrock'' ps"
    and d: "map_of (props ps) ''default'' = readProfile ''default'' ps"
    by (simp_all add: readProfile_def)
  show ?thesis
    by (simp add: chatCredentials_def ps selectCredentials_def selectedProfile_def b d rd)
qed

lemma takeWhile_single_sep:
  assumes "count_list s c = 1"
  shows "takeWhile (\<lambda>x. x \<noteq> c) (drop 1 (dropWhile (\<lambda>x. x \<noteq> c) s)) =
           drop 1 (dropWhile (\<lambda>x. x \<noteq> c) s)"
proof -
  let ?r = "drop 1 (dropWhile (\<lambda>x. x \<noteq> c) s)"
  have cs: "c \<in> set s"
    using assms by (metis count_list_0_iff zero_neq_one)
  have "s = takeWhile (\<lambda>x. x \<noteq> c) s @ c # ?r"
    using dropWhile_sep [OF cs] by (metis takeWhile_dropWhile_id)
  then have "count_list s c = count_list (takeWhile (\<lambda>x. x \<noteq> c) s) c + 1 + count_list ?r c"
    by (metis (no_types, lifting) count_list.simps(2) count_list_append add.assoc add.commute)
  with assms have "count_list ?r c = 0" by simp
  then have "c \<notin> set ?r" by (simp add: count_list_0_iff)
  then show ?thesis by (auto simp: takeWhile_eq_all_conv)
qed

lemma storedValue_single: "count_list l CHR ''='' = 1 \<Longrightarrow> storedValue l = remainderValue l"
  unfolding storedValue_def remainderValue_def
  by (rule arg_cong [where f = trim]) (rule takeWhile_single_sep)

lemma fieldOf_storedProfile:
  "k \<in> set recognizedKeys \<Longrightarrow>
     fieldOf k (storedProfile n ls) =
       map_option storedValue (lastAssignment k (lastSectionBody n ls))"
  by (auto simp: recognizedKeys_def fieldOf_def storedProfile_def)

lemma jsKeyOrder_no_index: "list_all (\<lambda>n. \<not> isArrayIndex n) ks \<Longrightarrow> jsKeyOrder ks = ks"
proof -
  assume "list_all (\<lambda>n. \<not> isArrayIndex n) ks"
  then have "filter isArrayIndex ks = []" and "filter (\<lambda>k. \<not> isArrayIndex k) ks = ks"
    by (simp_all add: list_all_iff filter_empty_conv)
  then show ?thesis by (simp add: jsKeyOrder_def)
qed

subsection \<open>Splitting a data URL, reading a frame\<close>

lemma payload_between_commas:
  assumes "CHR '','' \<notin> set a"
  shows "nth_opt (split_on CHR '','' (a @ CHR '','' # b)) (Suc 0) = Some (takeWhile (\<lambda>c. c \<noteq> CHR '','') b)"
proof -
  have "dropWhile (\<lambda>c. c \<noteq> CHR '','') (a @ CHR '','' # b) = CHR '','' # b"
    using assms by (simp add: dropWhile_append)
  then show ?thesis
    using split_on_second [of "CHR '',''" "a @ CHR '','' # b"] by simp
qed

lemma deltaText_not_null: "deltaText v = Some chunk \<Longrightarrow> v \<noteq> JNull"
  by (auto simp: deltaText_def)

lemma decodeFrame_value:
  "v \<noteq> JNull \<Longrightarrow>
     decodeFrame (Some v) =
       (case deltaText v of
          None \<Rightarrow> Inr []
        | Some chunk \<Rightarrow>
            if truthy chunk then Inr [\<lparr>deltaRole = Assistant, deltaContent = chunk\<rparr>]
            else Inr [])"
  by (cases v) (simp_all add: decodeFrame_def)

section \<open>The claims\<close>

subsection \<open>The parse never fails\<close>

text \<open>
  C10. The credential parse is total: for every input string the parser returns a
  mapping and raises nothing. In particular the split of a line that contains an
  \<^verbatim>\<open>=\<close> has a first and a second piece, so both \<^verbatim>\<open>key\<close> and \<^verbatim>\<open>value\<close> are defined
  and neither call of \<^verbatim>\<open>.trim()\<close> can throw.
\<close>

theorem parseCredentialsFile_total:
  "(\<exists>profiles. parseCredentialsFile fileContents = Inr profiles)
   \<and> (CHR ''='' \<in> set trimmedLine \<longrightarrow>
        (\<exists>key val. nth_opt (split_on CHR ''='' trimmedLine) 0 = Some key
                  \<and> nth_opt (split_on CHR ''='' trimmedLine) 1 = Some val))"
  using parse_characterised [of fileContents] split_on_first split_on_second by blast

theorem parseCredentialsFile_total_witness:
  "(\<exists>profiles. parseCredentialsFile ''==\<newline>[a\<newline>k=v=w=\<newline>[a]\<newline>=\<newline>]'' = Inr profiles)
   \<and> CHR ''='' \<in> set ''=''
   \<and> (\<exists>key val. nth_opt (split_on CHR ''='' ''='') 0 = Some key
                  \<and> nth_opt (split_on CHR ''='' ''='') 1 = Some val)"
  using parseCredentialsFile_total
    [of "''==\<newline>[a\<newline>k=v=w=\<newline>[a]\<newline>=\<newline>]''" "''=''"]
  by simp

subsection \<open>Sections and fields of the parsed store\<close>

text \<open>
  C2, as amended. For every text the parse returns a mapping whose keys are the
  bracketed section names other than \<^verbatim>\<open>__proto__\<close>, each once: the names that are array
  indices first, in ascending numeric order, then the other names in order of first
  appearance (so exactly in order of first appearance when no name is an array index
  or \<^verbatim>\<open>__proto__\<close>). For each such section and each recognized key, the stored field
  is absent when the last section of that name has no assignment to the key, and
  otherwise it is the value of the last assignment to the key in the last section of
  that name, whenever that line has a single \<^verbatim>\<open>=\<close>.
\<close>

theorem parseCredentialsFile_sections:
  "\<exists>profiles. parseCredentialsFile fileContents = Inr profiles
     \<and> ownKeys profiles =
         jsKeyOrder (firstOccurrences
           (filter (\<lambda>n. n \<noteq> ''__proto__'') (sectionNames fileContents)))
     \<and> (list_all (\<lambda>n. n \<noteq> ''__proto__'' \<and> \<not> isArrayIndex n) (sectionNames fileContents)
          \<longrightarrow> ownKeys profiles = firstOccurrences (sectionNames fileContents))
     \<and> (\<forall>n\<in>set (sectionNames fileContents). n \<noteq> ''__proto__'' \<longrightarrow>
          (\<exists>p. map_of (props profiles) n = Some p
             \<and> (\<forall>k\<in>set recognizedKeys.
                  case lastAssignment k (lastSectionBody n (trimmedLines fileContents)) of
                    None \<Rightarrow> fieldOf k p = None
                  | Some l \<Rightarrow>
                      (count_list l CHR ''='' = 1 \<longrightarrow> fieldOf k p = Some (remainderValue l)))))"
proof -
  let ?names = "sectionNames fileContents"
  obtain ps where ps: "parseCredentialsFile fileContents = Inr ps"
    and keys: "map fst (props ps) = firstOccurrences (filter (\<lambda>n. n \<noteq> ''__proto__'') ?names)"
    and rd: "\<And>n. readProfile n ps =
            (if n \<in> set ?names then Some (storedProfile n (trimmedLines fileContents))
             else None)"
    using parse_characterised [of fileContents] by blast
  have order: "ownKeys ps = jsKeyOrder (firstOccurrences (filter (\<lambda>n. n \<noteq> ''__proto__'') ?names))"
    by (simp add: ownKeys_def keys)
  have plain: "ownKeys ps = firstOccurrences ?names"
    if h: "list_all (\<lambda>n. n \<noteq> ''__proto__'' \<and> \<not> isArrayIndex n) ?names"
  proof -
    have f: "filter (\<lambda>n. n \<noteq> ''__proto__'') ?names = ?names"
      using h by (simp add: list_all_iff)
    have "list_all (\<lambda>n. \<not> isArrayIndex n) (firstOccurrences ?names)"
      using h by (simp add: list_all_iff set_firstOccurrences)
    then show ?thesis
      by (simp add: order f jsKeyOrder_no_index)
  qed
  have fields: "\<exists>p. map_of (props ps) n = Some p
             \<and> (\<forall>k\<in>set recognizedKeys.
                  case lastAssignment k (lastSectionBody n (trimmedLines fileContents)) of
                    None \<Rightarrow> fieldOf k p = None
                  | Some l \<Rightarrow>
                      (count_list l CHR ''='' = 1 \<longrightarrow> fieldOf k p = Some (remainderValue l)))"
    if n: "n \<in> set ?names" "n \<noteq> ''__proto__''" for n
  proof -
    have "map_of (props ps) n = Some (storedProfile n (trimmedLines fileContents))"
      using n rd [of n] by (simp add: readProfile_def)
    then show ?thesis
      by (auto simp: fieldOf_storedProfile storedValue_single split: option.splits)
  qed
  show ?thesis
    using ps order plain fields by blast
qed


theorem parseCredentialsFile_sections_witness:
  "\<exists>profiles.
     parseCredentialsFile
       ''[default]\<newline>aws_access_key_id = OLD\<newline>[bedrock]\<newline>region = eu\<newline>[default]\<newline>aws_access_key_id = A1\<newline>aws_access_key_id = A2''
       = Inr profiles
     \<and> ownKeys profiles = [''default'', ''bedrock'']
     \<and> ''default'' \<in> set (sectionNames
       ''[default]\<newline>aws_access_key_id = OLD\<newline>[bedrock]\<newline>region = eu\<newline>[default]\<newline>aws_access_key_id = A1\<newline>aws_access_key_id = A2'')
     \<and> ''aws_access_key_id'' \<in> set recognizedKeys
     \<and> ''aws_session_token'' \<in> set recognizedKeys
     \<and> count_list ''aws_access_key_id = A2'' CHR ''='' = 1
     \<and> (\<exists>p. map_of (props profiles) ''default'' = Some p
            \<and> fieldOf ''aws_access_key_id'' p = Some ''A2''
            \<and> fieldOf ''aws_session_token'' p = None)"
proof -
  let ?s = "''[default]\<newline>aws_access_key_id = OLD\<newline>[bedrock]\<newline>region = eu\<newline>[default]\<newline>aws_access_key_id = A1\<newline>aws_access_key_id = A2''"
  have names: "sectionNames ?s = [''default'', ''bedrock'', ''default'']"
    by code_simp
  have plain: "list_all (\<lambda>n. n \<noteq> ''__proto__'' \<and> \<not> isArrayIndex n) [''default'', ''bedrock'', ''default'']"
    by code_simp
  have first: "firstOccurrences [''default'', ''bedrock'', ''default''] = [''default'', ''bedrock'']"
    by code_simp
  have a1: "lastAssignment ''aws_access_key_id'' (lastSectionBody ''default'' (trimmedLines ?s)) =
      Some ''aws_access_key_id = A2''"
    by code_simp
  have a2: "lastAssignment ''aws_session_token'' (lastSectionBody ''default'' (trimmedLines ?s)) = None"
    by code_simp
  have one: "count_list ''aws_access_key_id = A2'' CHR ''='' = 1"
    by simp
  have v: "remainderValue ''aws_access_key_id = A2'' = ''A2''"
    by code_simp
  have k1: "''aws_access_key_id'' \<in> set recognizedKeys" and k2: "''aws_session_token'' \<in> set recognizedKeys"
    by (simp_all add: recognizedKeys_def)
  obtain profiles where p: "parseCredentialsFile ?s = Inr profiles"
    and o: "list_all (\<lambda>n. n \<noteq> ''__proto__'' \<and> \<not> isArrayIndex n) (sectionNames ?s)
          \<longrightarrow> ownKeys profiles = firstOccurrences (sectionNames ?s)"
    and f: "\<forall>n\<in>set (sectionNames ?s). n \<noteq> ''__proto__'' \<longrightarrow>
          (\<exists>p. map_of (props profiles) n = Some p
             \<and> (\<forall>k\<in>set recognizedKeys.
                  case lastAssignment k (lastSectionBody n (trimmedLines ?s)) of
                    None \<Rightarrow> fieldOf k p = None
                  | Some l \<Rightarrow>
                      (count_list l CHR ''='' = 1 \<longrightarrow> fieldOf k p = Some (remainderValue l))))"
    using parseCredentialsFile_sections [of ?s] by blast
  have keys: "ownKeys profiles = [''default'', ''bedrock'']"
    using o plain by (simp only: names first)
  have "''default'' \<in> set (sectionNames ?s)"
    by (simp add: names)
  then obtain pr where m: "map_of (props profiles) ''default'' = Some pr"
    and fs: "\<forall>k\<in>set recognizedKeys.
                  case lastAssignment k (lastSectionBody ''default'' (trimmedLines ?s)) of
                    None \<Rightarrow> fieldOf k pr = None
                  | Some l \<Rightarrow>
                      (count_list l CHR ''='' = 1 \<longrightarrow> fieldOf k pr = Some (remainderValue l))"
    using f by fastforce
  have "fieldOf ''aws_access_key_id'' pr = Some ''A2''"
    using fs [rule_format, OF k1] one by (simp add: a1 v)
  moreover have "fieldOf ''aws_session_token'' pr = None"
    using fs [rule_format, OF k2] by (simp add: a2)
  ultimately show ?thesis
    using p keys m k1 k2 one by (simp add: names)
qed

text \<open>
  The claim as stated fails in three ways. A header that repeats a section name starts
  the profile afresh, so an assignment in an earlier section of that name is lost; a
  section name that is an array index is enumerated before the names met earlier; and
  the section name \<^verbatim>\<open>__proto__\<close> is no key of the mapping.
\<close>

theorem parseCredentialsFile_sections_counterexample:
  "parseCredentialsFile ''[a]\<newline>aws_access_key_id=X\<newline>[a]'' =
      Inr \<lparr>props = [(''a'', \<lparr>accessKeyId = None, secretAccessKey = None, sessionToken = None\<rparr>)],
           proto = None\<rparr>
   \<and> map_option remainderValue
        (lastAssignmentAnywhere ''aws_access_key_id'' ''a''
          (trimmedLines ''[a]\<newline>aws_access_key_id=X\<newline>[a]'')) = Some ''X''
   \<and> map_sum id ownKeys (parseCredentialsFile ''[b]\<newline>[1]'') = Inr [''1'', ''b'']
   \<and> firstOccurrences (sectionNames ''[b]\<newline>[1]'') = [''b'', ''1'']
   \<and> map_sum id ownKeys (parseCredentialsFile ''[__proto__]'') = Inr []
   \<and> sectionNames ''[__proto__]'' = [''__proto__'']"
  by code_simp

subsection \<open>Lines of the form key = value\<close>

text \<open>
  C5. The claim says that a line is split on its first \<^verbatim>\<open>=\<close> only, so that a value
  containing \<^verbatim>\<open>=\<close> is kept whole. The parser splits on every \<^verbatim>\<open>=\<close> and keeps the
  second piece: of the session token \<^verbatim>\<open>AQoDYXdzEJr==\<close> it stores \<^verbatim>\<open>AQoDYXdzEJr\<close>,
  while the remainder after the first \<^verbatim>\<open>=\<close> is the whole token.
\<close>

theorem value_with_equals_sign_truncated:
  "parseCredentialsFile ''[default]\<newline>aws_session_token = AQoDYXdzEJr==\<newline>'' =
      Inr \<lparr>props = [(''default'',
                       \<lparr>accessKeyId = None, secretAccessKey = None,
                        sessionToken = Some ''AQoDYXdzEJr''\<rparr>)],
           proto = None\<rparr>
   \<and> remainderValue ''aws_session_token = AQoDYXdzEJr=='' = ''AQoDYXdzEJr==''"
  by code_simp

subsection \<open>Credential selection\<close>

text \<open>
  C1, as amended. For every parsed credential store in which neither a profile named
  \<^verbatim>\<open>bedrock\<close> nor a profile named \<^verbatim>\<open>default\<close> exists, the credential-selection step of
  the chat operation fails, with the \<^verbatim>\<open>TypeError\<close> of reading a property of
  \<^verbatim>\<open>undefined\<close> and not with a distinct error of its own; and the session token, when
  absent from the selected profile, defaults to the empty string.
\<close>

theorem selection_without_profile:
  "(''bedrock'' \<notin> set (sectionNames fileData) \<and> ''default'' \<notin> set (sectionNames fileData)
      \<longrightarrow> chatCredentials fileData = Inl TypeError)
   \<and> (selectedProfile credentialsFile = None
      \<longrightarrow> selectCredentials credentialsFile = Inl TypeError)
   \<and> (selectedProfile credentialsFile = Some credentials \<and> sessionToken credentials = None
      \<longrightarrow> (\<exists>c. selectCredentials credentialsFile = Inr c \<and> clientSessionToken c = []))"
  by (simp add: chatCredentials_eq selectCredentials_def profileCredentials_def orEmpty_def)


theorem selection_without_profile_witness:
  "''bedrock'' \<notin> set (sectionNames ''[work]\<newline>aws_access_key_id = AKIA'')
   \<and> ''default'' \<notin> set (sectionNames ''[work]\<newline>aws_access_key_id = AKIA'')
   \<and> chatCredentials ''[work]\<newline>aws_access_key_id = AKIA'' = Inl TypeError
   \<and> selectedProfile emptyProfiles = None
   \<and> selectCredentials emptyProfiles = Inl TypeError
   \<and> selectedProfile \<lparr>props = [(''default'', emptyProfile)], proto = None\<rparr> = Some emptyProfile
   \<and> sessionToken emptyProfile = None
   \<and> (\<exists>c. selectCredentials \<lparr>props = [(''default'', emptyProfile)], proto = None\<rparr> = Inr c
          \<and> clientSessionToken c = [])"
proof -
  have n: "sectionNames ''[work]\<newline>aws_access_key_id = AKIA'' = [''work'']"
    by code_simp
  have s0: "selectedProfile emptyProfiles = None"
    by (simp add: selectedProfile_def emptyProfiles_def)
  have s1: "selectedProfile \<lparr>props = [(''default'', emptyProfile)], proto = None\<rparr> = Some emptyProfile"
    by (simp add: selectedProfile_def)
  have t: "sessionToken emptyProfile = None"
    by (simp add: emptyProfile_def)
  show ?thesis
    using selection_without_profile
            [of "''[work]\<newline>aws_access_key_id = AKIA''" emptyProfiles emptyProfile]
          selection_without_profile
            [of "''[work]\<newline>aws_access_key_id = AKIA''"
                "\<lparr>props = [(''default'', emptyProfile)], proto = None\<rparr>" emptyProfile]
    by (simp add: n s0 s1 t)
qed

text \<open>
  The claim as stated fails: with the single section \<^verbatim>\<open>[work]\<close> the selection fails, but
  with a \<^verbatim>\<open>TypeError\<close>.
\<close>

theorem selection_error_is_not_MissingCredentials:
  "chatCredentials ''[work]\<newline>aws_access_key_id = AKIA'' = Inl TypeError
   \<and> chatCredentials ''[work]\<newline>aws_access_key_id = AKIA''
       \<noteq> Inl MissingCredentials"
  by code_simp


text \<open>
  C7. For every parsed credential store that has both a profile named \<^verbatim>\<open>bedrock\<close> and
  a profile named \<^verbatim>\<open>default\<close>, selection yields the fields of the \<^verbatim>\<open>bedrock\<close> profile;
  this holds of any store, and so of the store parsed from a text with both sections.
\<close>

theorem bedrock_preferred_over_default:
  "(map_of (props credentialsFile) ''bedrock'' = Some pb
      \<and> map_of (props credentialsFile) ''default'' = Some pd
    \<longrightarrow> selectCredentials credentialsFile =
          Inr \<lparr>clientAccessKeyId = accessKeyId pb, clientSecretAccessKey = secretAccessKey pb,
               clientSessionToken = orEmpty (sessionToken pb)\<rparr>)
   \<and> (''bedrock'' \<in> set (sectionNames fileData) \<and> ''default'' \<in> set (sectionNames fileData)
    \<longrightarrow> (\<exists>ps pb pd. parseCredentialsFile fileData = Inr ps
            \<and> map_of (props ps) ''bedrock'' = Some pb
            \<and> map_of (props ps) ''default'' = Some pd
            \<and> chatCredentials fileData = Inr (profileCredentials pb)))"
proof -
  obtain ps where ps: "parseCredentialsFile fileData = Inr ps"
    and rd: "\<And>n. readProfile n ps =
            (if n \<in> set (sectionNames fileData)
             then Some (storedProfile n (trimmedLines fileData)) else None)"
    using parse_characterised [of fileData] by blast
  have b: "map_of (props ps) ''bedrock'' = readProfile ''bedrock'' ps"
    and d: "map_of (props ps) ''default'' = readProfile ''default'' ps"
    by (simp_all add: readProfile_def)
  show ?thesis
    by (simp add: selectCredentials_def selectedProfile_def profileCredentials_def
        chatCredentials_eq ps b d rd)
qed


theorem bedrock_preferred_over_default_witness:
  "map_of [(''default'', emptyProfile\<lparr>accessKeyId := Some ''D''\<rparr>),
           (''bedrock'', emptyProfile\<lparr>accessKeyId := Some ''B''\<rparr>)] ''bedrock''
     = Some (emptyProfile\<lparr>accessKeyId := Some ''B''\<rparr>)
   \<and> map_of [(''default'', emptyProfile\<lparr>accessKeyId := Some ''D''\<rparr>),
           (''bedrock'', emptyProfile\<lparr>accessKeyId := Some ''B''\<rparr>)] ''default''
     = Some (emptyProfile\<lparr>accessKeyId := Some ''D''\<rparr>)
   \<and> selectCredentials
        \<lparr>props = [(''default'', emptyProfile\<lparr>accessKeyId := Some ''D''\<rparr>),
                  (''bedrock'', emptyProfile\<lparr>accessKeyId := Some ''B''\<rparr>)],
         proto = None\<rparr>
       = Inr \<lparr>clientAccessKeyId = Some ''B'', clientSecretAccessKey = None,
              clientSessionToken = []\<rparr>
   \<and> ''bedrock'' \<in> set (sectionNames ''[default]\<newline>aws_access_key_id=D\<newline>[bedrock]\<newline>aws_access_key_id=B'')
   \<and> ''default'' \<in> set (sectionNames ''[default]\<newline>aws_access_key_id=D\<newline>[bedrock]\<newline>aws_access_key_id=B'')
   \<and> (\<exists>ps pb pd.
         parseCredentialsFile ''[default]\<newline>aws_access_key_id=D\<newline>[bedrock]\<newline>aws_access_key_id=B'' = Inr ps
         \<and> map_of (props ps) ''bedrock'' = Some pb
         \<and> map_of (props ps) ''default'' = Some pd
         \<and> chatCredentials ''[default]\<newline>aws_access_key_id=D\<newline>[bedrock]\<newline>aws_access_key_id=B''
             = Inr (profileCredentials pb))"
proof -
  let ?s = "''[default]\<newline>aws_access_key_id=D\<newline>[bedrock]\<newline>aws_access_key_id=B''"
  let ?ps = "\<lparr>props = [(''default'', emptyProfile\<lparr>accessKeyId := Some ''D''\<rparr>),
                  (''bedrock'', emptyProfile\<lparr>accessKeyId := Some ''B''\<rparr>)],
         proto = None\<rparr>"
  have n: "sectionNames ?s = [''default'', ''bedrock'']"
    by code_simp
  show ?thesis
    using bedrock_preferred_over_default
            [of ?ps "emptyProfile\<lparr>accessKeyId := Some ''B''\<rparr>"
                "emptyProfile\<lparr>accessKeyId := Some ''D''\<rparr>" ?s]
    by (simp add: n emptyProfile_def orEmpty_def)
qed

text \<open>
  C9. For every parsed credential store that contains a section named \<^verbatim>\<open>bedrock\<close>,
  selection yields the \<^verbatim>\<open>bedrock\<close> profile, also when that section assigns none of the
  recognized keys and the profile is the empty object; the \<^verbatim>\<open>default\<close> profile is
  consulted only when the text has no \<^verbatim>\<open>bedrock\<close> section at all.
\<close>

theorem empty_bedrock_section_selected:
  "(''bedrock'' \<in> set (sectionNames fileData) \<longrightarrow>
      (\<exists>ps p. parseCredentialsFile fileData = Inr ps
         \<and> map_of (props ps) ''bedrock'' = Some p
         \<and> selectedProfile ps = Some p
         \<and> chatCredentials fileData = Inr (profileCredentials p)))
   \<and> (''bedrock'' \<in> set (sectionNames fileData)
        \<and> list_all (\<lambda>k. lastAssignment k (lastSectionBody ''bedrock'' (trimmedLines fileData)) = None)
             recognizedKeys \<longrightarrow>
      chatCredentials fileData =
        Inr \<lparr>clientAccessKeyId = None, clientSecretAccessKey = None, clientSessionToken = []\<rparr>)
   \<and> (''bedrock'' \<notin> set (sectionNames fileData) \<longrightarrow>
      (\<exists>ps. parseCredentialsFile fileData = Inr ps
         \<and> map_of (props ps) ''bedrock'' = None
         \<and> selectedProfile ps = map_of (props ps) ''default''))"
proof -
  obtain ps where ps: "parseCredentialsFile fileData = Inr ps"
    and rd: "\<And>n. readProfile n ps =
            (if n \<in> set (sectionNames fileData)
             then Some (storedProfile n (trimmedLines fileData)) else None)"
    using parse_characterised [of fileData] by blast
  have b: "map_of (props ps) ''bedrock'' = readProfile ''bedrock'' ps"
    by (simp add: readProfile_def)
  have empty: "profileCredentials (storedProfile ''bedrock'' (trimmedLines fileData)) =
      \<lparr>clientAccessKeyId = None, clientSecretAccessKey = None, clientSessionToken = []\<rparr>"
    if "list_all (\<lambda>k. lastAssignment k (lastSectionBody ''bedrock'' (trimmedLines fileData)) = None)
             recognizedKeys"
    using that by (simp add: recognizedKeys_def storedProfile_def profileCredentials_def orEmpty_def)
  show ?thesis
    using empty by (simp add: chatCredentials_eq ps b rd selectedProfile_def)
qed


theorem empty_bedrock_section_selected_witness:
  "''bedrock'' \<in> set (sectionNames ''[bedrock]\<newline>[default]\<newline>aws_access_key_id=D'')
   \<and> list_all
        (\<lambda>k. lastAssignment k
               (lastSectionBody ''bedrock''
                 (trimmedLines ''[bedrock]\<newline>[default]\<newline>aws_access_key_id=D'')) = None)
        recognizedKeys
   \<and> chatCredentials ''[bedrock]\<newline>[default]\<newline>aws_access_key_id=D'' =
        Inr \<lparr>clientAccessKeyId = None, clientSecretAccessKey = None, clientSessionToken = []\<rparr>
   \<and> ''bedrock'' \<notin> set (sectionNames ''[default]\<newline>aws_access_key_id=D'')
   \<and> (\<exists>ps. parseCredentialsFile ''[default]\<newline>aws_access_key_id=D'' = Inr ps
          \<and> map_of (props ps) ''bedrock'' = None
          \<and> selectedProfile ps = map_of (props ps) ''default'')"
proof -
  have n1: "sectionNames ''[bedrock]\<newline>[default]\<newline>aws_access_key_id=D'' = [''bedrock'', ''default'']"
    by code_simp
  have e: "list_all
        (\<lambda>k. lastAssignment k
               (lastSectionBody ''bedrock''
                 (trimmedLines ''[bedrock]\<newline>[default]\<newline>aws_access_key_id=D'')) = None)
        recognizedKeys"
    by code_simp
  have n2: "sectionNames ''[default]\<newline>aws_access_key_id=D'' = [''default'']"
    by code_simp
  show ?thesis
    using empty_bedrock_section_selected [of "''[bedrock]\<newline>[default]\<newline>aws_access_key_id=D''"]
          empty_bedrock_section_selected [of "''[default]\<newline>aws_access_key_id=D''"]
          e
    by (simp add: n1 n2)
qed


subsection \<open>Message translation\<close>

text \<open>
  C6. For every sequence of chat messages, translation removes exactly the
  system-role messages: the output has as many messages as the input has messages
  that are not of the system role, the roles of the output are the roles of the input
  without the system ones, in the same order, and each message that remains carries the
  translation of its own content. Translation goes message by message: a system
  message between two sequences contributes nothing, any other message its translation.
\<close>

theorem convertMessages_drops_system_only:
  "length (convertMessages msgs) = length msgs - length (filter (\<lambda>m. role m = System) msgs)
   \<and> map wireRole (convertMessages msgs) = filter (\<lambda>r. r \<noteq> System) (map role msgs)
   \<and> map wireContent (convertMessages msgs) =
       map (\<lambda>m. convertMessageContent (content m)) (filter (\<lambda>m. role m \<noteq> System) msgs)
   \<and> (convertMessages (before @ m # after) =
        (if role m = System then convertMessages before @ convertMessages after
         else convertMessages before @ convertMessage m # convertMessages after))"
proof -
  have "length (filter (\<lambda>m. role m \<noteq> System) msgs) + length (filter (\<lambda>m. role m = System) msgs)
      = length msgs"
    using sum_length_filter_compl [of "\<lambda>m. role m \<noteq> System" msgs] by simp
  then have "length (convertMessages msgs) =
      length msgs - length (filter (\<lambda>m. role m = System) msgs)"
    by (simp add: convertMessages_def)
  moreover have "map wireRole (convertMessages msgs) = filter (\<lambda>r. r \<noteq> System) (map role msgs)"
    by (simp add: convertMessages_def convertMessage_def filter_map comp_def)
  moreover have "map wireContent (convertMessages msgs) =
       map (\<lambda>m. convertMessageContent (content m)) (filter (\<lambda>m. role m \<noteq> System) msgs)"
    by (simp add: convertMessages_def convertMessage_def)
  ultimately show ?thesis
    by (simp add: convertMessages_def)
qed

theorem convertMessages_drops_system_only_witness:
  "convertMessages
     [\<lparr>role = System, content = Str ''be brief''\<rparr>, \<lparr>role = User, content = Str ''hi''\<rparr>,
      \<lparr>role = Assistant, content = Str ''hello''\<rparr>, \<lparr>role = System, content = Str ''x''\<rparr>,
      \<lparr>role = User, content = Str ''bye''\<rparr>]
    = [\<lparr>wireRole = User, wireContent = WireStr ''hi''\<rparr>,
       \<lparr>wireRole = Assistant, wireContent = WireStr ''hello''\<rparr>,
       \<lparr>wireRole = User, wireContent = WireStr ''bye''\<rparr>]"
proof -
  let ?msgs = "[\<lparr>role = System, content = Str ''be brief''\<rparr>, \<lparr>role = User, content = Str ''hi''\<rparr>,
      \<lparr>role = Assistant, content = Str ''hello''\<rparr>, \<lparr>role = System, content = Str ''x''\<rparr>,
      \<lparr>role = User, content = Str ''bye''\<rparr>]"
  have r: "map wireRole (convertMessages ?msgs) = [User, Assistant, User]"
    and c: "map wireContent (convertMessages ?msgs) = [WireStr ''hi'', WireStr ''hello'', WireStr ''bye'']"
    using convertMessages_drops_system_only [of ?msgs "[]" "\<lparr>role = User, content = Str []\<rparr>" "[]"] by simp_all
  obtain a b c' where abc: "convertMessages ?msgs = [a, b, c']"
    using r by (auto simp: map_eq_Cons_conv)
  show ?thesis
    using r c by (simp add: abc)
qed


text \<open>
  C4, as amended. For every chat message with multi-part content, translation maps
  each part in place: a Text part is passed through unchanged, and any other part
  becomes an embedded-image structure of type \<^verbatim>\<open>base64\<close> with the media type
  \<^verbatim>\<open>image/jpeg\<close>, whose payload is the text between the first and the second comma of
  the image's URL. That is the whole substring after the first comma when it contains
  no further comma; the payload is absent when the URL has no comma or the part has no
  URL.
\<close>

theorem convertMessageContent_parts:
  "(\<exists>ws. convertMessageContent (Parts parts) = WireParts ws
        \<and> length ws = length parts
        \<and> (\<forall>i<length parts.
              ws ! i =
                (if partType (parts ! i) = TextType then SamePart (parts ! i)
                 else ImagePart ''image''
                        \<lparr>sourceType = ''base64'', media_type = ''image/jpeg'',
                         imageData = imagePayload (parts ! i)\<rparr>)))
   \<and> (partImageUrl part = Some (a @ CHR '','' # b) \<and> CHR '','' \<notin> set a \<longrightarrow>
        imagePayload part = Some (takeWhile (\<lambda>c. c \<noteq> CHR '','') b))
   \<and> (partImageUrl part = Some (a @ CHR '','' # b) \<and> CHR '','' \<notin> set a \<and> CHR '','' \<notin> set b \<longrightarrow>
        imagePayload part = Some (afterFirstComma (a @ CHR '','' # b)))
   \<and> (partImageUrl part = Some url \<and> CHR '','' \<notin> set url \<longrightarrow> imagePayload part = None)
   \<and> (partImageUrl part = None \<longrightarrow> imagePayload part = None)"
proof -
  have 1: "\<exists>ws. convertMessageContent (Parts parts) = WireParts ws
        \<and> length ws = length parts
        \<and> (\<forall>i<length parts.
              ws ! i =
                (if partType (parts ! i) = TextType then SamePart (parts ! i)
                 else ImagePart ''image''
                        \<lparr>sourceType = ''base64'', media_type = ''image/jpeg'',
                         imageData = imagePayload (parts ! i)\<rparr>))"
    by (simp add: convertPart_def)
  have 2: "imagePayload part = Some (takeWhile (\<lambda>c. c \<noteq> CHR '','') b)"
    if "partImageUrl part = Some (a @ CHR '','' # b)" "CHR '','' \<notin> set a"
    using that by (simp add: imagePayload_def payload_between_commas)
  have 3: "imagePayload part = Some (afterFirstComma (a @ CHR '','' # b))"
    if "partImageUrl part = Some (a @ CHR '','' # b)" "CHR '','' \<notin> set a" "CHR '','' \<notin> set b"
  proof -
    have "takeWhile (\<lambda>c. c \<noteq> CHR '','') b = b"
      using that(3) by (auto intro: takeWhile_all)
    moreover have "afterFirstComma (a @ CHR '','' # b) = b"
      using that(2) by (simp add: afterFirstComma_def dropWhile_append)
    ultimately show ?thesis
      using 2 [OF that(1,2)] by simp
  qed
  have 4: "imagePayload part = None" if "partImageUrl part = Some url" "CHR '','' \<notin> set url"
    using that by (simp add: imagePayload_def split_on_none)
  have 5: "imagePayload part = None" if "partImageUrl part = None"
    using that by (simp add: imagePayload_def)
  show ?thesis
    using 1 2 3 4 5 by blast
qed

theorem convertMessageContent_parts_witness:
  "(\<exists>ws. convertMessageContent
            (Parts [\<lparr>partType = TextType, partText = Some ''look'', partImageUrl = None\<rparr>,
                    \<lparr>partType = ImageUrlType, partText = None,
                     partImageUrl = Some ''data:image/png;base64,iVBORw0KGgo=''\<rparr>])
          = WireParts ws
        \<and> ws ! 0 = SamePart \<lparr>partType = TextType, partText = Some ''look'', partImageUrl = None\<rparr>
        \<and> ws ! 1 = ImagePart ''image''
                       \<lparr>sourceType = ''base64'', media_type = ''image/jpeg'',
                        imageData = Some ''iVBORw0KGgo=''\<rparr>)
   \<and> CHR '','' \<notin> set ''data:image/png;base64''
   \<and> CHR '','' \<notin> set ''iVBORw0KGgo=''
   \<and> CHR '','' \<notin> set ''no-comma''
   \<and> imagePayload \<lparr>partType = ImageUrlType, partText = None, partImageUrl = Some ''no-comma''\<rparr> = None"
proof -
  let ?t = "\<lparr>partType = TextType, partText = Some ''look'', partImageUrl = None\<rparr>"
  let ?i = "\<lparr>partType = ImageUrlType, partText = None,
                     partImageUrl = Some ''data:image/png;base64,iVBORw0KGgo=''\<rparr>"
  let ?n = "\<lparr>partType = ImageUrlType, partText = None, partImageUrl = Some ''no-comma''\<rparr>"
  have u: "''data:image/png;base64,iVBORw0KGgo='' = ''data:image/png;base64'' @ CHR '','' # ''iVBORw0KGgo=''"
    by simp
  have c1: "CHR '','' \<notin> set ''data:image/png;base64''" and c2: "CHR '','' \<notin> set ''iVBORw0KGgo=''"
    and c3: "CHR '','' \<notin> set ''no-comma''"
    by simp_all
  have a: "afterFirstComma (''data:image/png;base64'' @ CHR '','' # ''iVBORw0KGgo='') = ''iVBORw0KGgo=''"
    by code_simp
  have p: "imagePayload ?i = Some ''iVBORw0KGgo=''"
    using convertMessageContent_parts
            [of "[?t, ?i]" ?i "''data:image/png;base64''" "''iVBORw0KGgo=''" "''no-comma''"] c1 c2 a
    by simp
  have n: "imagePayload ?n = None"
    using convertMessageContent_parts [of "[]" ?n "[]" "[]" "''no-comma''"] c3 by simp
  obtain ws where w: "convertMessageContent (Parts [?t, ?i]) = WireParts ws"
    and l: "length ws = length [?t, ?i]"
    and e: "\<forall>i<length [?t, ?i].
              ws ! i =
                (if partType ([?t, ?i] ! i) = TextType then SamePart ([?t, ?i] ! i)
                 else ImagePart ''image''
                        \<lparr>sourceType = ''base64'', media_type = ''image/jpeg'',
                         imageData = imagePayload ([?t, ?i] ! i)\<rparr>)"
    using convertMessageContent_parts
            [of "[?t, ?i]" ?i "''data:image/png;base64''" "''iVBORw0KGgo=''" "''no-comma''"]
    by blast
  have "ws ! 0 = SamePart ?t"
    using e [rule_format, of 0] by simp
  moreover have "ws ! 1 = ImagePart ''image''
                       \<lparr>sourceType = ''base64'', media_type = ''image/jpeg'',
                        imageData = Some ''iVBORw0KGgo=''\<rparr>"
    using e [rule_format, of 1] p by simp
  ultimately show ?thesis
    using w n c1 c2 c3 by blast
qed


text \<open>
  The claim as stated fails for a payload with a comma: the embedded data stops at the
  second comma of the URL.
\<close>

theorem payload_with_comma_counterexample:
  "convertMessageContent
     (Parts [\<lparr>partType = ImageUrlType, partText = None,
              partImageUrl = Some ''data:image/png;base64,AAAA,BBBB''\<rparr>])
     = WireParts [ImagePart ''image''
                    \<lparr>sourceType = ''base64'', media_type = ''image/jpeg'', imageData = Some ''AAAA''\<rparr>]
   \<and> afterFirstComma ''data:image/png;base64,AAAA,BBBB'' = ''AAAA,BBBB''"
  by code_simp


subsection \<open>The response stream\<close>

text \<open>
  C3, as amended. For every response frame that decodes to JSON with a nested
  \<^verbatim>\<open>delta.text\<close> field whose value is truthy, in particular a string that is not
  empty, the stream decoder emits exactly one delta carrying exactly that value; for
  every frame where the field is falsy (the empty string, for one), and for every
  frame other than \<^verbatim>\<open>null\<close> where it is absent, it emits nothing and goes on. For the
  frames \<^verbatim>\<open>{"delta":{"text":"Hel"}}\<close>, \<^verbatim>\<open>{"delta":{"text":"lo"}}\<close>, \<^verbatim>\<open>{"other":1}\<close> the
  emitted sequence is exactly \<^verbatim>\<open>Hel\<close>, \<^verbatim>\<open>lo\<close>, with no error.
\<close>

theorem decodeFrame_emits_truthy_text:
  "(deltaText v = Some chunk \<and> truthy chunk \<longrightarrow>
      decodeFrame (Some v) = Inr [\<lparr>deltaRole = Assistant, deltaContent = chunk\<rparr>])
   \<and> (deltaText v = Some (JStr t) \<and> t \<noteq> [] \<longrightarrow>
      decodeFrame (Some v) = Inr [\<lparr>deltaRole = Assistant, deltaContent = JStr t\<rparr>])
   \<and> (deltaText v = Some chunk \<and> \<not> truthy chunk \<longrightarrow> decodeFrame (Some v) = Inr [])
   \<and> (deltaText v = None \<and> v \<noteq> JNull \<longrightarrow> decodeFrame (Some v) = Inr [])
   \<and> decodeFrames
        [Some (JObj [(''delta'', JObj [(''text'', JStr ''Hel'')])]),
         Some (JObj [(''delta'', JObj [(''text'', JStr ''lo'')])]),
         Some (JObj [(''other'', JNum 1)])]
       = ([\<lparr>deltaRole = Assistant, deltaContent = JStr ''Hel''\<rparr>,
           \<lparr>deltaRole = Assistant, deltaContent = JStr ''lo''\<rparr>], None)"
proof -
  have "decodeFrames
        [Some (JObj [(''delta'', JObj [(''text'', JStr ''Hel'')])]),
         Some (JObj [(''delta'', JObj [(''text'', JStr ''lo'')])]),
         Some (JObj [(''other'', JNum 1)])]
       = ([\<lparr>deltaRole = Assistant, deltaContent = JStr ''Hel''\<rparr>,
           \<lparr>deltaRole = Assistant, deltaContent = JStr ''lo''\<rparr>], None)"
    by (simp add: decodeFrame_def deltaText_def)
  then show ?thesis
    using deltaText_not_null [of v] by (auto simp: decodeFrame_value)
qed

theorem decodeFrame_emits_truthy_text_witness:
  "deltaText (JObj [(''delta'', JObj [(''text'', JStr ''Hel'')])]) = Some (JStr ''Hel'')
   \<and> truthy (JStr ''Hel'')
   \<and> decodeFrame (Some (JObj [(''delta'', JObj [(''text'', JStr ''Hel'')])])) =
       Inr [\<lparr>deltaRole = Assistant, deltaContent = JStr ''Hel''\<rparr>]
   \<and> deltaText (JObj [(''delta'', JObj [(''text'', JNum 0)])]) = Some (JNum 0)
   \<and> \<not> truthy (JNum 0)
   \<and> decodeFrame (Some (JObj [(''delta'', JObj [(''text'', JNum 0)])])) = Inr []
   \<and> deltaText (JObj [(''other'', JNum 1)]) = None
   \<and> JObj [(''other'', JNum 1)] \<noteq> JNull
   \<and> decodeFrame (Some (JObj [(''other'', JNum 1)])) = Inr []"
  using decodeFrame_emits_truthy_text
          [of "JObj [(''delta'', JObj [(''text'', JStr ''Hel'')])]" "JStr ''Hel''" "''Hel''"]
        decodeFrame_emits_truthy_text
          [of "JObj [(''delta'', JObj [(''text'', JNum 0)])]" "JNum 0" "[]"]
        decodeFrame_emits_truthy_text
          [of "JObj [(''other'', JNum 1)]" JNull "[]"]
  by (simp add: deltaText_def)


text \<open>
  The claim as stated fails for the frame \<^verbatim>\<open>{"delta":{"text":""}}\<close>: the field is there,
  and nothing is emitted.
\<close>

theorem empty_delta_text_not_emitted:
  "deltaText (JObj [(''delta'', JObj [(''text'', JStr [])])]) = Some (JStr [])
   \<and> decodeFrame (Some (JObj [(''delta'', JObj [(''text'', JStr [])])])) = Inr []"
  by (simp add: decodeFrame_def deltaText_def)


subsection \<open>The request body\<close>

text \<open>
  C8, as amended. For every invocation the object that is serialised has exactly the
  eight properties \<^verbatim>\<open>anthropic_version\<close> (the fixed marker \<^verbatim>\<open>bedrock-2023-05-31\<close>),
  \<^verbatim>\<open>max_tokens\<close>, \<^verbatim>\<open>system\<close>, \<^verbatim>\<open>messages\<close>, \<^verbatim>\<open>temperature\<close>, \<^verbatim>\<open>top_p\<close>, \<^verbatim>\<open>top_k\<close> and
  \<^verbatim>\<open>stop_sequences\<close>, in this order. The wire body has no other field; it has
  \<^verbatim>\<open>anthropic_version\<close> and the translated \<^verbatim>\<open>messages\<close> always, and each of the other six
  exactly when the caller's \<^verbatim>\<open>maxTokens\<close>, system message, \<^verbatim>\<open>temperature\<close>, \<^verbatim>\<open>topP\<close>,
  \<^verbatim>\<open>topK\<close> or \<^verbatim>\<open>stop\<close> is set, with the value copied unmodified. When all six are set
  the body has exactly the eight fields.
\<close>

theorem requestBody_fields:
  "map fst (requestObject systemMessage messages options) = wireFieldNames
   \<and> map_of (requestBody systemMessage messages options) ''anthropic_version'' =
       Some (VString ''bedrock-2023-05-31'')
   \<and> map_of (requestBody systemMessage messages options) ''max_tokens'' =
       map_option VNumber (maxTokens options)
   \<and> map_of (requestBody systemMessage messages options) ''system'' =
       map_option VString systemMessage
   \<and> map_of (requestBody systemMessage messages options) ''messages'' =
       Some (VMessages (convertMessages messages))
   \<and> map_of (requestBody systemMessage messages options) ''temperature'' =
       map_option VNumber (temperature options)
   \<and> map_of (requestBody systemMessage messages options) ''top_p'' =
       map_option VNumber (topP options)
   \<and> map_of (requestBody systemMessage messages options) ''top_k'' =
       map_option VNumber (topK options)
   \<and> map_of (requestBody systemMessage messages options) ''stop_sequences'' =
       map_option VStrings (stop options)
   \<and> (\<forall>k. k \<notin> set wireFieldNames \<longrightarrow>
         map_of (requestBody systemMessage messages options) k = None)
   \<and> (maxTokens options \<noteq> None \<and> systemMessage \<noteq> None \<and> temperature options \<noteq> None
        \<and> topP options \<noteq> None \<and> topK options \<noteq> None \<and> stop options \<noteq> None \<longrightarrow>
       map fst (requestBody systemMessage messages options) = wireFieldNames)"
  by (cases "maxTokens options"; cases systemMessage; cases "temperature options";
      cases "topP options"; cases "topK options"; cases "stop options")
     (simp_all add: requestBody_def requestObject_def wireFieldNames_def)


theorem requestBody_fields_witness:
  "maxTokens \<lparr>model = ''anthropic.claude-v2'', maxTokens = Some 1024, temperature = Some (1 / 2),
              topP = Some 1, topK = Some 40, stop = Some [''Human:'']\<rparr> \<noteq> None
   \<and> Some ''be brief'' \<noteq> (None :: string option)
   \<and> ''metadata'' \<notin> set wireFieldNames
   \<and> map_of (requestBody (Some ''be brief'') [\<lparr>role = User, content = Str ''hi''\<rparr>]
        \<lparr>model = ''anthropic.claude-v2'', maxTokens = Some 1024, temperature = Some (1 / 2),
         topP = Some 1, topK = Some 40, stop = Some [''Human:'']\<rparr>) ''metadata'' = None
   \<and> map fst (requestBody (Some ''be brief'') [\<lparr>role = User, content = Str ''hi''\<rparr>]
        \<lparr>model = ''anthropic.claude-v2'', maxTokens = Some 1024, temperature = Some (1 / 2),
         topP = Some 1, topK = Some 40, stop = Some [''Human:'']\<rparr>) = wireFieldNames
   \<and> map_of (requestBody (Some ''be brief'') [\<lparr>role = User, content = Str ''hi''\<rparr>]
        \<lparr>model = ''anthropic.claude-v2'', maxTokens = Some 1024, temperature = Some (1 / 2),
         topP = Some 1, topK = Some 40, stop = Some [''Human:'']\<rparr>) ''temperature''
       = Some (VNumber (1 / 2))"
proof -
  have n: "''metadata'' \<notin> set wireFieldNames"
    by (simp add: wireFieldNames_def)
  show ?thesis
    using requestBody_fields
            [of "Some ''be brief''" "[\<lparr>role = User, content = Str ''hi''\<rparr>]"
                "\<lparr>model = ''anthropic.claude-v2'', maxTokens = Some 1024,
                  temperature = Some (1 / 2), topP = Some 1, topK = Some 40,
                  stop = Some [''Human:'']\<rparr>"]
          n
    by simp
qed

text \<open>
  The claim as stated fails when an option is unset: with only \<^verbatim>\<open>maxTokens\<close> given the
  body has three fields.
\<close>

theorem unset_options_are_omitted:
  "requestBody None []
     \<lparr>model = ''anthropic.claude-v2'', maxTokens = Some 1024, temperature = None, topP = None,
      topK = None, stop = None\<rparr>
   = [(''anthropic_version'', VString ''bedrock-2023-05-31''),
      (''max_tokens'', VNumber 1024),
      (''messages'', VMessages [])]"
  by (simp add: requestBody_def requestObject_def convertMessages_def)

end
